theory Spec2Isabelle
  imports Complex_Main
begin

section \<open>JSON values and the Python operations the relay applies to them\<close>

text \<open>
  The relay (\<^verbatim>\<open>src/main.py\<close>) handles decoded JSON as plain Python values: \<^verbatim>\<open>None\<close>,
  booleans, numbers, strings, lists and dicts. A dict is an association list read with
  \<open>map_of\<close>; Python's \<^verbatim>\<open>None\<close> is \<open>JNull\<close>. A float is a real number here (the
  non-finite floats are non-zero, which is all the relay ever asks of a number).
\<close>

datatype json =
    JNull
  | JBool bool
  | JInt int
  | JFloat real
  | JStr string
  | JArr "json list"
  | JObj "(string \<times> json) list"

text \<open>Truth value of a Python object, as in \<^verbatim>\<open>if not msg_type\<close> or \<^verbatim>\<open>if audio_data:\<close>.\<close>

fun truthy :: "json \<Rightarrow> bool" where
  "truthy JNull = False"
| "truthy (JBool b) = b"
| "truthy (JInt i) = (i \<noteq> 0)"
| "truthy (JFloat x) = (x \<noteq> 0)"
| "truthy (JStr s) = (s \<noteq> [])"
| "truthy (JArr xs) = (xs \<noteq> [])"
| "truthy (JObj kv) = (kv \<noteq> [])"

text \<open>
  Exceptions: the class decides which \<^verbatim>\<open>except\<close> clause catches it, the text is \<^verbatim>\<open>str(e)\<close>.
  Every class here derives from \<^verbatim>\<open>Exception\<close>; \<open>OtherException\<close> stands for any class
  that only the \<^verbatim>\<open>except Exception\<close> clauses catch (RuntimeError, WebSocketDisconnect,
  UnboundLocalError, ...). Cancellation of a task (\<^verbatim>\<open>BaseException\<close>) is outside the
  model.
\<close>

datatype exc_class =
    ValueError | JSONDecodeError | KeyError | AttributeError | TypeError
  | ConnectionClosedOK | ConnectionClosedError | OtherException

datatype exc = Exc exc_class string

fun exc_str :: "exc \<Rightarrow> string" where
  "exc_str (Exc c text) = text"

fun exc_cls :: "exc \<Rightarrow> exc_class" where
  "exc_cls (Exc c text) = c"

definition quoted :: "string \<Rightarrow> string" where
  "quoted s = CHR 0x27 # s @ [CHR 0x27]"

fun type_name :: "json \<Rightarrow> string" where
  "type_name JNull = ''NoneType''"
| "type_name (JBool b) = ''bool''"
| "type_name (JInt i) = ''int''"
| "type_name (JFloat x) = ''float''"
| "type_name (JStr s) = ''str''"
| "type_name (JArr xs) = ''list''"
| "type_name (JObj kv) = ''dict''"

text \<open>
  The texts of the errors the Python runtime raises are those of CPython 3.11; no property
  below depends on them.
\<close>

text \<open>\<^verbatim>\<open>v.get(k, d)\<close>: only a dict has the method.\<close>

fun py_get :: "json \<Rightarrow> string \<Rightarrow> json \<Rightarrow> exc + json" where
  "py_get (JObj kv) k d = Inr (case map_of kv k of Some v \<Rightarrow> v | None \<Rightarrow> d)"
| "py_get v k d =
     Inl (Exc AttributeError (quoted (type_name v) @ '' object has no attribute '' @ quoted ''get''))"

fun starts_with :: "string \<Rightarrow> string \<Rightarrow> bool" where
  "starts_with s [] = True"
| "starts_with [] (c # p) = False"
| "starts_with (d # s) (c # p) = (d = c \<and> starts_with s p)"

fun str_contains :: "string \<Rightarrow> string \<Rightarrow> bool" where
  "str_contains [] p = (p = [])"
| "str_contains (d # s) p = (starts_with (d # s) p \<or> str_contains s p)"

text \<open>\<^verbatim>\<open>k in v\<close> for a string \<open>k\<close>: key of a dict, element of a list, substring of a string.\<close>

fun py_in :: "string \<Rightarrow> json \<Rightarrow> exc + bool" where
  "py_in k (JObj kv) = Inr (map_of kv k \<noteq> None)"
| "py_in k (JArr xs) = Inr (JStr k \<in> set xs)"
| "py_in k (JStr s) = Inr (str_contains s k)"
| "py_in k v =
     Inl (Exc TypeError (''argument of type '' @ quoted (type_name v) @ '' is not iterable''))"

text \<open>\<^verbatim>\<open>v[k]\<close> for a string \<open>k\<close>.\<close>

fun py_index :: "json \<Rightarrow> string \<Rightarrow> exc + json" where
  "py_index (JObj kv) k =
     (case map_of kv k of Some v \<Rightarrow> Inr v | None \<Rightarrow> Inl (Exc KeyError (quoted k)))"
| "py_index (JStr s) k = Inl (Exc TypeError ''string indices must be integers'')"
| "py_index (JArr xs) k =
     Inl (Exc TypeError ''list indices must be integers or slices, not str'')"
| "py_index v k =
     Inl (Exc TypeError (quoted (type_name v) @ '' object is not subscriptable''))"

text \<open>
  \<^verbatim>\<open>for p in v\<close>: the elements of a list, the keys of a dict, the characters of a string.
\<close>

fun py_iter :: "json \<Rightarrow> exc + json list" where
  "py_iter (JArr xs) = Inr xs"
| "py_iter (JObj kv) = Inr (map (\<lambda>(k, v). JStr k) kv)"
| "py_iter (JStr s) = Inr (map (\<lambda>c. JStr [c]) s)"
| "py_iter v = Inl (Exc TypeError (quoted (type_name v) @ '' object is not iterable''))"

section \<open>The Upstream Session: class GeminiConnection\<close>

type_synonym handle = nat

record gemini_connection =
  api_key :: string
  model :: string
  uri :: string
  ws :: "handle option"
  config :: json

text \<open>
  What the relay does to the outside world, in the order it does it: calls on the client
  websocket (\<open>Ws\<close>), calls into the websockets library (\<open>Up\<close>), and the entries and
  returns of the \<^verbatim>\<open>GeminiConnection\<close> methods. \<open>CloseOf r\<close> is \<^verbatim>\<open>close()\<close> called on the
  object \<open>r\<close>.
\<close>

datatype event =
    WsAccept
  | WsReceiveJson
  | WsClose int string
  | WsReceive
  | WsSendJson json
  | UpConnect string
  | UpSend handle json
  | UpRecv handle
  | UpClose handle
  | ConnectCalled
  | ConnectReturned string
  | SendAudio json
  | SendImage json
  | SendText json
  | ReceiveCalled
  | CloseOf nat

text \<open>\<^verbatim>\<open>__init__\<close> (lines 26-38): the credential comes from the process environment.\<close>

definition gemini_init :: "string option \<Rightarrow> exc + gemini_connection" where
  "gemini_init env_key =
     (case env_key of
        None \<Rightarrow> Inl (Exc ValueError ''GEMINI_API_KEY not found in environment variables.'')
      | Some k \<Rightarrow>
          if k = [] then Inl (Exc ValueError ''GEMINI_API_KEY not found in environment variables.'')
          else Inr \<lparr> api_key = k,
                     model = ''gemini-2.0-flash-exp'',
                     uri = ''wss://generativelanguage.googleapis.com/ws/''
                       @ ''google.ai.generativelanguage.v1alpha.GenerativeService.BidiGenerateContent''
                       @ ''?key='' @ k,
                     ws = None,
                     config = JNull \<rparr>)"

text \<open>\<^verbatim>\<open>set_config\<close> (lines 82-85).\<close>

definition set_config :: "gemini_connection \<Rightarrow> json \<Rightarrow> gemini_connection" where
  "set_config self c = self \<lparr> config := c \<rparr>"

text \<open>The setup message of \<^verbatim>\<open>connect\<close> (lines 52-73); the two subscripts can raise.\<close>

definition setup_message :: "gemini_connection \<Rightarrow> exc + json" where
  "setup_message self =
     (case py_index (config self) ''voice'' of
        Inl e \<Rightarrow> Inl e
      | Inr voice \<Rightarrow>
     (case py_index (config self) ''systemPrompt'' of
        Inl e \<Rightarrow> Inl e
      | Inr prompt \<Rightarrow>
          Inr (JObj [(''setup'', JObj [
                 (''model'', JStr (''models/'' @ model self)),
                 (''generation_config'', JObj [
                    (''response_modalities'', JArr [JStr ''AUDIO'']),
                    (''speech_config'', JObj [
                       (''voice_config'', JObj [
                          (''prebuilt_voice_config'', JObj [(''voice_name'', voice)])])])]),
                 (''system_instruction'', JObj [
                    (''parts'', JArr [JObj [(''text'', prompt)]])])])])))"

text \<open>The payloads of \<^verbatim>\<open>send_audio\<close>, \<^verbatim>\<open>send_image\<close> and \<^verbatim>\<open>send_text\<close>.\<close>

definition audio_message :: "json \<Rightarrow> json" where
  "audio_message audio_data =
     JObj [(''realtime_input'', JObj [
        (''media_chunks'', JArr [JObj [(''data'', audio_data), (''mime_type'', JStr ''audio/pcm'')]])])]"

definition image_message :: "json \<Rightarrow> json" where
  "image_message image_data =
     JObj [(''realtime_input'', JObj [
        (''media_chunks'', JArr [JObj [(''data'', image_data), (''mime_type'', JStr ''image/jpeg'')]])])]"

definition text_message :: "json \<Rightarrow> json" where
  "text_message text =
     JObj [(''client_content'', JObj [
        (''turns'', JArr [JObj [(''role'', JStr ''user''), (''parts'', JArr [JObj [(''text'', text)]])]]),
        (''turn_complete'', JBool True)])]"

text \<open>
  \<^verbatim>\<open>send_audio\<close>, \<^verbatim>\<open>send_image\<close>, \<^verbatim>\<open>send_text\<close> (lines 87-101, 118-149): the method is
  entered, and the payload goes on the wire only \<^verbatim>\<open>if self.ws\<close>.
\<close>

definition on_wire :: "gemini_connection \<Rightarrow> json \<Rightarrow> event list" where
  "on_wire self payload = (case ws self of Some h \<Rightarrow> [UpSend h payload] | None \<Rightarrow> [])"

definition send_audio :: "gemini_connection \<Rightarrow> json \<Rightarrow> event list" where
  "send_audio self audio_data = SendAudio audio_data # on_wire self (audio_message audio_data)"

definition send_image :: "gemini_connection \<Rightarrow> json \<Rightarrow> event list" where
  "send_image self image_data = SendImage image_data # on_wire self (image_message image_data)"

definition send_text :: "gemini_connection \<Rightarrow> json \<Rightarrow> event list" where
  "send_text self text = SendText text # on_wire self (text_message text)"

section \<open>Coroutines as resumable state machines\<close>

text \<open>
  Each \<^verbatim>\<open>async def\<close> runs in atomic blocks between its \<^verbatim>\<open>await\<close>s. A program counter names
  the \<^verbatim>\<open>await\<close> a coroutine is suspended at; a step resumes it with the outcome of that
  call and runs it to its next \<^verbatim>\<open>await\<close>, giving the new program counter and the calls
  made on the way.
\<close>

datatype asgi_message = Disconnect | TextFrame string | BytesFrame

datatype val = VNone | VJson json | VHandle handle | VText string | VMessage asgi_message

text \<open>
  What an awaited library call (Starlette's websocket, the websockets connection) raises:
  one of the two connection-closed errors of websockets, or some other error. The classes
  the relay's own \<^verbatim>\<open>except\<close> clauses name besides these (JSONDecodeError, KeyError) come
  from the relay's own statements; where a library call can raise one
  (\<^verbatim>\<open>receive_json\<close>), the clause that catches it does not look at the class.
\<close>

datatype fault_class = ClosedOK | ClosedError | LibraryError

datatype fault = Fault fault_class string

fun raised :: "fault \<Rightarrow> exc" where
  "raised (Fault ClosedOK text) = Exc ConnectionClosedOK text"
| "raised (Fault ClosedError text) = Exc ConnectionClosedError text"
| "raised (Fault LibraryError text) = Exc OtherException text"

datatype outcome = Returns val | Raises fault

subsection \<open>The Client-to-Upstream Pump: receive\_from\_client (lines 198-252)\<close>

text \<open>
  \<open>CReceive bound\<close>: suspended in \<^verbatim>\<open>websocket.receive()\<close> (line 206); \<open>bound\<close> tells whether
  the local \<^verbatim>\<open>message\<close> was assigned by an earlier iteration. \<open>CUpSend\<close>: suspended in
  \<^verbatim>\<open>self.ws.send\<close> inside one of the send methods.
\<close>

datatype cpump_pc = CIdle | CStart | CReceive bool | CUpSend | CDone

text \<open>The head of the loop (lines 200-206); \<open>disc\<close> is \<^verbatim>\<open>client_state.name == 'DISCONNECTED'\<close>.\<close>

definition cpump_head :: "bool \<Rightarrow> bool \<Rightarrow> event list \<Rightarrow> cpump_pc \<times> event list" where
  "cpump_head disc bound evs =
     (if disc then (CDone, evs) else (CReceive bound, evs @ [WsReceive]))"

text \<open>
  The \<^verbatim>\<open>except\<close> clauses of the iteration (lines 231-245). The two connection-closed clauses
  break. The others print \<^verbatim>\<open>message\<close> and go round the loop; while \<^verbatim>\<open>message\<close> is still
  unassigned that print raises \<^verbatim>\<open>UnboundLocalError\<close>, which the outer clause (line 247)
  catches, and the pump ends.
\<close>

definition cpump_except :: "exc \<Rightarrow> bool \<Rightarrow> bool \<Rightarrow> event list \<Rightarrow> cpump_pc \<times> event list" where
  "cpump_except e disc bound evs =
     (if exc_cls e = ConnectionClosedOK \<or> exc_cls e = ConnectionClosedError then (CDone, evs)
      else if bound then cpump_head disc True evs
      else (CDone, evs))"

text \<open>After a send method: suspended in \<^verbatim>\<open>self.ws.send\<close> if the handle is set.\<close>

definition cpump_sent :: "bool \<Rightarrow> gemini_connection \<Rightarrow> event list \<Rightarrow> cpump_pc \<times> event list" where
  "cpump_sent disc self evs =
     (if ws self = None then cpump_head disc True evs else (CUpSend, evs))"

text \<open>A text frame (lines 211-227); \<open>loads\<close> is \<^verbatim>\<open>json.loads\<close>, \<open>None\<close> its JSONDecodeError.\<close>

definition cpump_text ::
  "(string \<Rightarrow> json option) \<Rightarrow> bool \<Rightarrow> gemini_connection \<Rightarrow> string \<Rightarrow> cpump_pc \<times> event list" where
  "cpump_text loads disc self s =
     (case loads s of
        None \<Rightarrow> cpump_except (Exc JSONDecodeError []) disc True []
      | Some message_content \<Rightarrow>
     (case py_get message_content ''type'' JNull of
        Inl e \<Rightarrow> cpump_except e disc True []
      | Inr msg_type \<Rightarrow>
     (case py_get message_content ''data'' JNull of
        Inl e \<Rightarrow> cpump_except e disc True []
      | Inr msg_data \<Rightarrow>
          if \<not> truthy msg_type \<or> msg_data = JNull then cpump_head disc True []
          else if msg_type = JStr ''audio'' then cpump_sent disc self (send_audio self msg_data)
          else if msg_type = JStr ''image'' then cpump_sent disc self (send_image self msg_data)
          else if msg_type = JStr ''text'' then cpump_sent disc self (send_text self msg_data)
          else cpump_head disc True [])))"

fun cpump_step ::
  "(string \<Rightarrow> json option) \<Rightarrow> bool \<Rightarrow> gemini_connection \<Rightarrow> cpump_pc \<Rightarrow> outcome
     \<Rightarrow> cpump_pc \<times> event list" where
  "cpump_step loads disc self CStart r = cpump_head disc False []"
| "cpump_step loads disc self (CReceive bound) (Raises e) = cpump_except (raised e) disc bound []"
| "cpump_step loads disc self (CReceive bound) (Returns (VMessage Disconnect)) = (CDone, [])"
| "cpump_step loads disc self (CReceive bound) (Returns (VMessage (TextFrame s))) =
     cpump_text loads disc self s"
| "cpump_step loads disc self (CReceive bound) (Returns (VMessage BytesFrame)) =
     cpump_head disc True []"
| "cpump_step loads disc self CUpSend (Raises e) = cpump_except (raised e) disc True []"
| "cpump_step loads disc self CUpSend (Returns v) = cpump_head disc True []"
| "cpump_step loads disc self pc r = (pc, [])"

subsection \<open>The Upstream-to-Client Pump: receive\_from\_gemini (lines 254-326)\<close>

text \<open>
  \<open>GRecv\<close>: suspended in \<^verbatim>\<open>self.ws.recv()\<close> inside \<^verbatim>\<open>gemini.receive()\<close> (line 261).
  \<open>GSendPart server_content response ps\<close>: suspended in the \<^verbatim>\<open>send_json\<close> of a part
  (lines 284, 291), the parts \<open>ps\<close> still to come. \<open>GSendTurn\<close>, \<open>GSendError\<close>, \<open>GSendExc\<close>:
  suspended in the \<^verbatim>\<open>send_json\<close> of lines 296, 303 and 316.
\<close>

datatype gpump_pc =
    GIdle | GStart | GRecv
  | GSendPart json json "json list"
  | GSendTurn json
  | GSendError | GSendExc | GDone

text \<open>The head of the loop with \<^verbatim>\<open>receive\<close> (lines 256-264, 103-109).\<close>

definition gpump_head :: "bool \<Rightarrow> gemini_connection \<Rightarrow> event list \<Rightarrow> gpump_pc \<times> event list" where
  "gpump_head disc self evs =
     (if disc then (GDone, evs)
      else (case ws self of
              Some h \<Rightarrow> (GRecv, evs @ [ReceiveCalled, UpRecv h])
            | None \<Rightarrow> (GDone, evs @ [ReceiveCalled])))"

text \<open>The \<^verbatim>\<open>except\<close> clauses of the pump (lines 306-319): every one of them ends the loop.\<close>

definition gpump_except :: "exc \<Rightarrow> bool \<Rightarrow> gpump_pc \<times> event list" where
  "gpump_except e disc =
     (if exc_cls e = JSONDecodeError \<or> exc_cls e = ConnectionClosedOK
         \<or> exc_cls e = ConnectionClosedError then (GDone, [])
      else if \<not> disc then
        (GSendExc, [WsSendJson (JObj [(''type'', JStr ''error''),
           (''message'', JStr (''Server error during Gemini communication: '' @ exc_str e))])])
      else (GDone, []))"

text \<open>The top-level \<^verbatim>\<open>error\<close> of the message (lines 299-303).\<close>

definition gpump_error :: "bool \<Rightarrow> gemini_connection \<Rightarrow> json \<Rightarrow> gpump_pc \<times> event list" where
  "gpump_error disc self response =
     (case py_in ''error'' response of
        Inl e \<Rightarrow> gpump_except e disc
      | Inr False \<Rightarrow> gpump_head disc self []
      | Inr True \<Rightarrow>
     (case py_index response ''error'' of
        Inl e \<Rightarrow> gpump_except e disc
      | Inr err \<Rightarrow>
     (case py_get err ''message'' (JStr ''Unknown Gemini error'') of
        Inl e \<Rightarrow> gpump_except e disc
      | Inr error_details \<Rightarrow>
          if \<not> disc then
            (GSendError, [WsSendJson (JObj [(''type'', JStr ''error''), (''message'', error_details)])])
          else gpump_head disc self [])))"

text \<open>\<^verbatim>\<open>turnComplete\<close> (lines 294-296).\<close>

definition gpump_turn :: "bool \<Rightarrow> gemini_connection \<Rightarrow> json \<Rightarrow> json \<Rightarrow> gpump_pc \<times> event list" where
  "gpump_turn disc self server_content response =
     (case py_get server_content ''turnComplete'' JNull of
        Inl e \<Rightarrow> gpump_except e disc
      | Inr tc \<Rightarrow>
          if truthy tc \<and> \<not> disc then
            (GSendTurn response, [WsSendJson (JObj [(''type'', JStr ''turn_complete''), (''data'', JBool True)])])
          else gpump_error disc self response)"

text \<open>
  The loop over the parts (lines 275-292), from the part it is at up to its next
  \<^verbatim>\<open>send_json\<close>. The variable \<^verbatim>\<open>response_to_client\<close>, initialised to
  \<^verbatim>\<open>{"type": "unknown"}\<close> on line 268, is only ever sent after being reassigned on line 283
  or 290.
\<close>

fun gpump_parts ::
  "bool \<Rightarrow> gemini_connection \<Rightarrow> json \<Rightarrow> json \<Rightarrow> json list \<Rightarrow> gpump_pc \<times> event list" where
  "gpump_parts disc self server_content response [] = gpump_turn disc self server_content response"
| "gpump_parts disc self server_content response (p # ps) =
     (if disc then (GDone, [])
      else
     (case py_in ''inlineData'' p of
        Inl e \<Rightarrow> gpump_except e disc
      | Inr True \<Rightarrow>
         (case py_index p ''inlineData'' of
            Inl e \<Rightarrow> gpump_except e disc
          | Inr inline \<Rightarrow>
         (case py_get inline ''data'' JNull of
            Inl e \<Rightarrow> gpump_except e disc
          | Inr audio_data \<Rightarrow>
              if truthy audio_data then
                (GSendPart server_content response ps,
                 [WsSendJson (JObj [(''type'', JStr ''audio''), (''data'', audio_data)])])
              else gpump_parts disc self server_content response ps))
      | Inr False \<Rightarrow>
         (case py_in ''text'' p of
            Inl e \<Rightarrow> gpump_except e disc
          | Inr True \<Rightarrow>
             (case py_get p ''text'' JNull of
                Inl e \<Rightarrow> gpump_except e disc
              | Inr text_data \<Rightarrow>
                  if truthy text_data then
                    (GSendPart server_content response ps,
                     [WsSendJson (JObj [(''type'', JStr ''text''), (''text'', text_data)])])
                  else gpump_parts disc self server_content response ps)
          | Inr False \<Rightarrow> gpump_parts disc self server_content response ps)))"

text \<open>A message from the provider (lines 266-275).\<close>

definition gpump_message ::
  "(string \<Rightarrow> json option) \<Rightarrow> bool \<Rightarrow> gemini_connection \<Rightarrow> string \<Rightarrow> gpump_pc \<times> event list" where
  "gpump_message loads disc self msg =
     (case loads msg of
        None \<Rightarrow> gpump_except (Exc JSONDecodeError []) disc
      | Some response \<Rightarrow>
     (case py_get response ''serverContent'' (JObj []) of
        Inl e \<Rightarrow> gpump_except e disc
      | Inr server_content \<Rightarrow>
     (case py_get server_content ''modelTurn'' (JObj []) of
        Inl e \<Rightarrow> gpump_except e disc
      | Inr model_turn \<Rightarrow>
     (case py_get model_turn ''parts'' (JArr []) of
        Inl e \<Rightarrow> gpump_except e disc
      | Inr parts \<Rightarrow>
     (case py_iter parts of
        Inl e \<Rightarrow> gpump_except e disc
      | Inr ps \<Rightarrow> gpump_parts disc self server_content response ps)))))"

fun gpump_step ::
  "(string \<Rightarrow> json option) \<Rightarrow> bool \<Rightarrow> gemini_connection \<Rightarrow> gpump_pc \<Rightarrow> outcome
     \<Rightarrow> gpump_pc \<times> event list" where
  "gpump_step loads disc self GStart r = gpump_head disc self []"
| "gpump_step loads disc self GRecv (Raises e) = gpump_except (raised e) disc"
| "gpump_step loads disc self GRecv (Returns VNone) = (GDone, [])"
| "gpump_step loads disc self GRecv (Returns (VText msg)) = gpump_message loads disc self msg"
| "gpump_step loads disc self (GSendPart server_content response ps) (Raises e) =
     gpump_except (raised e) disc"
| "gpump_step loads disc self (GSendPart server_content response ps) (Returns v) =
     gpump_parts disc self server_content response ps"
| "gpump_step loads disc self (GSendTurn response) (Raises e) = gpump_except (raised e) disc"
| "gpump_step loads disc self (GSendTurn response) (Returns v) = gpump_error disc self response"
| "gpump_step loads disc self GSendError (Raises e) = gpump_except (raised e) disc"
| "gpump_step loads disc self GSendError (Returns v) = gpump_head disc self []"
| "gpump_step loads disc self GSendExc r = (GDone, [])"
| "gpump_step loads disc self pc r = (pc, [])"

section \<open>The Session Supervisor and the Session Registry\<close>

text \<open>
  The process holds the environment variable, the registry \<^verbatim>\<open>connections\<close> (line 152) and
  the \<^verbatim>\<open>GeminiConnection\<close> objects. A supervisor constructs at most one
  \<^verbatim>\<open>GeminiConnection\<close>, so an object is named by the number of the session that constructed
  it.
\<close>

datatype task = Sup | CPump | GPump

text \<open>
  The supervisor is suspended in \<^verbatim>\<open>accept\<close> (line 158), \<^verbatim>\<open>receive_json\<close> (167),
  \<^verbatim>\<open>close(code=1008)\<close> (170), inside \<^verbatim>\<open>gemini.connect()\<close> in \<^verbatim>\<open>connect(uri)\<close> (43),
  \<^verbatim>\<open>ws.send\<close> (75) or \<^verbatim>\<open>ws.recv\<close> (78), in \<^verbatim>\<open>gather\<close> (179), in \<^verbatim>\<open>close(code=1011)\<close> (187),
  or in the \<^verbatim>\<open>ws.close()\<close> (115) of the object \<open>r\<close> it found in the registry (194); or
  it has ended, with the exception it let through, if any.
\<close>

datatype sup_pc =
    SAccept | SReceiveJson | SClose1008 | SConnect | SSetupSend | SSetupRecv
  | SGather | SClose1011 | STeardown nat | SDone "exc option"

record session =
  client_id :: string
  disconnected :: bool
  config_data :: "json option"
  sup :: sup_pc
  cpump :: cpump_pc
  gpump :: gpump_pc

text \<open>What all sessions share: the environment, the registry and the objects.\<close>

record process =
  env_key :: "string option"
  connections :: "string \<Rightarrow> nat option"
  heap :: "nat \<Rightarrow> gemini_connection"

text \<open>
  A block of the supervisor of session \<open>sid\<close> gives the process as it leaves it, the
  session's own new state, and the calls made. The session's own object (the local
  \<^verbatim>\<open>gemini\<close>) is \<open>heap p sid\<close>.
\<close>

type_synonym sup_result = "process \<times> session \<times> event list"

text \<open>The \<^verbatim>\<open>except Exception\<close> clause of the supervisor (lines 184-189).\<close>

definition sup_except :: "process \<Rightarrow> session \<Rightarrow> exc \<Rightarrow> sup_result" where
  "sup_except p s e =
     (p, s \<lparr> sup := SClose1011 \<rparr>, [WsClose 1011 (''Server error: '' @ exc_str e)])"

text \<open>
  The \<^verbatim>\<open>finally\<close> clause (lines 190-196) up to the \<^verbatim>\<open>await\<close> inside \<^verbatim>\<open>close()\<close>: it works on
  whatever object the registry holds under the client id.
\<close>

definition sup_finally :: "process \<Rightarrow> session \<Rightarrow> sup_result" where
  "sup_finally p s =
     (case connections p (client_id s) of
        None \<Rightarrow> (p, s \<lparr> sup := SDone None \<rparr>, [])
      | Some r \<Rightarrow>
         (case ws (heap p r) of
            Some h \<Rightarrow> (p, s \<lparr> sup := STeardown r \<rparr>, [CloseOf r, UpClose h])
          | None \<Rightarrow>
              (p \<lparr> connections := (connections p)(client_id s := None) \<rparr>,
               s \<lparr> sup := SDone None \<rparr>, [])))"

text \<open>
  \<^verbatim>\<open>ws.close()\<close> of the object \<open>r\<close> has returned: \<^verbatim>\<open>self.ws = None\<close> (line 116), then
  \<^verbatim>\<open>del connections[client_id]\<close> (line 195), a KeyError if the entry has gone meanwhile.
\<close>

definition sup_closed :: "process \<Rightarrow> session \<Rightarrow> nat \<Rightarrow> sup_result" where
  "sup_closed p s r =
     (case connections p (client_id s) of
        None \<Rightarrow>
          (p \<lparr> heap := (heap p)(r := (heap p r) \<lparr> ws := None \<rparr>) \<rparr>,
           s \<lparr> sup := SDone (Some (Exc KeyError (quoted (client_id s)))) \<rparr>, [])
      | Some r' \<Rightarrow>
          (p \<lparr> heap := (heap p)(r := (heap p r) \<lparr> ws := None \<rparr>),
               connections := (connections p)(client_id s := None) \<rparr>,
           s \<lparr> sup := SDone None \<rparr>, []))"

text \<open>After \<^verbatim>\<open>accept\<close>: construct, register, wait for the first message (lines 161-167).\<close>

definition sup_accepted :: "nat \<Rightarrow> process \<Rightarrow> session \<Rightarrow> sup_result" where
  "sup_accepted sid p s =
     (case gemini_init (env_key p) of
        Inl e \<Rightarrow> sup_except p s e
      | Inr g \<Rightarrow>
          (p \<lparr> heap := (heap p)(sid := g),
               connections := (connections p)(client_id s \<mapsto> sid) \<rparr>,
           s \<lparr> sup := SReceiveJson \<rparr>, [WsReceiveJson]))"

text \<open>
  The first message (lines 167-175 and 40-46): the policy check, \<^verbatim>\<open>set_config\<close>, and
  \<^verbatim>\<open>connect()\<close> up to its \<^verbatim>\<open>await connect(self.uri, ...)\<close>.
\<close>

definition sup_config :: "nat \<Rightarrow> process \<Rightarrow> session \<Rightarrow> json \<Rightarrow> sup_result" where
  "sup_config sid p s j =
     (case py_get j ''type'' JNull of
        Inl e \<Rightarrow> sup_except p (s \<lparr> config_data := Some j \<rparr>) e
      | Inr t \<Rightarrow>
          if t \<noteq> JStr ''config'' then
            (p, s \<lparr> config_data := Some j, sup := SClose1008 \<rparr>,
             [WsClose 1008 ''First message must be configuration''])
          else
         (case py_get j ''config'' (JObj []) of
            Inl e \<Rightarrow> sup_except p (s \<lparr> config_data := Some j \<rparr>) e
          | Inr c \<Rightarrow>
              (p \<lparr> heap := (heap p)(sid := set_config (heap p sid) c) \<rparr>,
               s \<lparr> config_data := Some j, sup := SConnect \<rparr>,
               [ConnectCalled, UpConnect (uri (heap p sid))])))"

text \<open>
  \<^verbatim>\<open>connect()\<close> after \<^verbatim>\<open>connect(self.uri, ...)\<close> has returned the handle \<open>h\<close> (lines 43-75):
  the handle is stored, then the configuration is tested, then the setup message is sent.
\<close>

definition sup_opened :: "nat \<Rightarrow> process \<Rightarrow> session \<Rightarrow> handle \<Rightarrow> sup_result" where
  "sup_opened sid p s h =
     (let p1 = p \<lparr> heap := (heap p)(sid := (heap p sid) \<lparr> ws := Some h \<rparr>) \<rparr> in
      if \<not> truthy (config (heap p1 sid)) then
        sup_except p1 s (Exc ValueError ''Configuration must be set before connecting'')
      else
       (case setup_message (heap p1 sid) of
          Inl e \<Rightarrow> sup_except p1 s e
        | Inr m \<Rightarrow> (p1, s \<lparr> sup := SSetupSend \<rparr>, [UpSend h m])))"

text \<open>The setup message is sent: \<^verbatim>\<open>await self.ws.recv()\<close> (line 78) reads the handle again.\<close>

definition sup_setup_sent :: "nat \<Rightarrow> process \<Rightarrow> session \<Rightarrow> sup_result" where
  "sup_setup_sent sid p s =
     (case ws (heap p sid) of
        None \<Rightarrow>
          sup_except p s
            (Exc AttributeError (quoted ''NoneType'' @ '' object has no attribute '' @ quoted ''recv''))
      | Some h \<Rightarrow> (p, s \<lparr> sup := SSetupRecv \<rparr>, [UpRecv h]))"

text \<open>
  The setup response has arrived: \<^verbatim>\<open>connect()\<close> returns it (line 80) and \<^verbatim>\<open>gather\<close> creates
  the two pump tasks (lines 179-182).
\<close>

definition sup_handshaken :: "process \<Rightarrow> session \<Rightarrow> string \<Rightarrow> sup_result" where
  "sup_handshaken p s setup_response =
     (p, s \<lparr> sup := SGather, cpump := CStart, gpump := GStart \<rparr>,
      [ConnectReturned setup_response])"

text \<open>
  Resuming the supervisor. \<^verbatim>\<open>accept\<close> is outside the \<^verbatim>\<open>try\<close>: its exception leaves the
  coroutine. Both pumps catch every exception, so \<^verbatim>\<open>gather\<close> returns when both have ended.
  The bare \<^verbatim>\<open>except\<close> of line 188 swallows a failure of \<^verbatim>\<open>close(code=1011)\<close>. An outcome
  the call suspended at cannot have leaves everything as it is.
\<close>

fun sup_resume :: "sup_pc \<Rightarrow> outcome \<Rightarrow> nat \<Rightarrow> process \<Rightarrow> session \<Rightarrow> sup_result" where
  "sup_resume SAccept (Raises e) sid p s = (p, s \<lparr> sup := SDone (Some (raised e)) \<rparr>, [])"
| "sup_resume SAccept (Returns v) sid p s = sup_accepted sid p s"
| "sup_resume SReceiveJson (Raises e) sid p s = sup_except p s (raised e)"
| "sup_resume SReceiveJson (Returns (VJson j)) sid p s = sup_config sid p s j"
| "sup_resume SClose1008 (Raises e) sid p s = sup_except p s (raised e)"
| "sup_resume SClose1008 (Returns v) sid p s =
     sup_except p s (Exc ValueError ''First message must be configuration'')"
| "sup_resume SConnect (Raises e) sid p s = sup_except p s (raised e)"
| "sup_resume SConnect (Returns (VHandle h)) sid p s = sup_opened sid p s h"
| "sup_resume SSetupSend (Raises e) sid p s = sup_except p s (raised e)"
| "sup_resume SSetupSend (Returns v) sid p s = sup_setup_sent sid p s"
| "sup_resume SSetupRecv (Raises e) sid p s = sup_except p s (raised e)"
| "sup_resume SSetupRecv (Returns (VText m)) sid p s = sup_handshaken p s m"
| "sup_resume SGather r sid p s =
     (if cpump s = CDone \<and> gpump s = GDone then sup_finally p s else (p, s, []))"
| "sup_resume SClose1011 r sid p s = sup_finally p s"
| "sup_resume (STeardown r) (Raises e) sid p s = (p, s \<lparr> sup := SDone (Some (raised e)) \<rparr>, [])"
| "sup_resume (STeardown r) (Returns v) sid p s = sup_closed p s r"
| "sup_resume pc r sid p s = (p, s, [])"

section \<open>The process: sessions interleaved at their awaits\<close>

text \<open>
  The sessions, one per call of \<^verbatim>\<open>websocket_endpoint\<close>, and the trace: every call, with
  the session and the task that made it, in the order the calls were made.
\<close>

record system =
  proc :: process
  sessions :: "nat \<Rightarrow> session option"
  trace :: "(nat \<times> task \<times> event) list"

text \<open>
  \<open>Open sid cid\<close>: a client connects to \<^verbatim>\<open>/ws/cid\<close> and the endpoint runs to its
  \<^verbatim>\<open>accept\<close>. \<open>Resume sid t r\<close>: the call that task \<open>t\<close> of session \<open>sid\<close> is suspended at
  completes with \<open>r\<close>. \<open>ClientState sid b\<close>: the framework updates \<^verbatim>\<open>websocket.client_state\<close>
  (any change is allowed, at any time).
\<close>

datatype action = Open nat string | Resume nat task outcome | ClientState nat bool

definition new_session :: "string \<Rightarrow> session" where
  "new_session cid =
     \<lparr> client_id = cid, disconnected = False, config_data = None,
       sup = SAccept, cpump = CIdle, gpump = GIdle \<rparr>"

text \<open>A task of session \<open>sid\<close> has run one block.\<close>

definition commit :: "nat \<Rightarrow> task \<Rightarrow> sup_result \<Rightarrow> system \<Rightarrow> system" where
  "commit sid t res st =
     (case res of (p, s, evs) \<Rightarrow>
        \<lparr> proc = p, sessions = (sessions st)(sid \<mapsto> s),
          trace = trace st @ map (\<lambda>e. (sid, t, e)) evs \<rparr>)"

fun sys_step :: "(string \<Rightarrow> json option) \<Rightarrow> system \<Rightarrow> action \<Rightarrow> system" where
  "sys_step loads st (Open sid cid) =
     (case sessions st sid of
        Some s \<Rightarrow> st
      | None \<Rightarrow> commit sid Sup (proc st, new_session cid, [WsAccept]) st)"
| "sys_step loads st (ClientState sid b) =
     (case sessions st sid of
        None \<Rightarrow> st
      | Some s \<Rightarrow> st \<lparr> sessions := (sessions st)(sid \<mapsto> s \<lparr> disconnected := b \<rparr>) \<rparr>)"
| "sys_step loads st (Resume sid Sup r) =
     (case sessions st sid of
        None \<Rightarrow> st
      | Some s \<Rightarrow> commit sid Sup (sup_resume (sup s) r sid (proc st) s) st)"
| "sys_step loads st (Resume sid CPump r) =
     (case sessions st sid of
        None \<Rightarrow> st
      | Some s \<Rightarrow>
         (case cpump_step loads (disconnected s) (heap (proc st) sid) (cpump s) r of
            (pc, evs) \<Rightarrow> commit sid CPump (proc st, s \<lparr> cpump := pc \<rparr>, evs) st))"
| "sys_step loads st (Resume sid GPump r) =
     (case sessions st sid of
        None \<Rightarrow> st
      | Some s \<Rightarrow>
         (case gpump_step loads (disconnected s) (heap (proc st) sid) (gpump s) r of
            (pc, evs) \<Rightarrow> commit sid GPump (proc st, s \<lparr> gpump := pc \<rparr>, evs) st))"

definition unallocated :: gemini_connection where
  "unallocated = \<lparr> api_key = [], model = [], uri = [], ws = None, config = JNull \<rparr>"

definition init :: "string option \<Rightarrow> system" where
  "init key =
     \<lparr> proc = \<lparr> env_key = key, connections = (\<lambda>cid. None), heap = (\<lambda>r. unallocated) \<rparr>,
       sessions = (\<lambda>sid. None), trace = [] \<rparr>"

definition run :: "(string \<Rightarrow> json option) \<Rightarrow> system \<Rightarrow> action list \<Rightarrow> system" where
  "run loads st sched = foldl (sys_step loads) st sched"

section \<open>Auxiliary notions for the properties\<close>

text \<open>
  A decoder for the worked examples: it knows the frames below and fails on every other
  text, as \<^verbatim>\<open>json.loads\<close> fails on malformed input.
\<close>

definition example_loads :: "string \<Rightarrow> json option" where
  "example_loads = map_of
     [(''text hello'', JObj [(''type'', JStr ''text''), (''data'', JStr ''hello'')]),
      (''text without data'', JObj [(''type'', JStr ''text'')]),
      (''audio then text'',
         JObj [(''serverContent'', JObj [
           (''modelTurn'', JObj [(''parts'', JArr [
              JObj [(''inlineData'', JObj [(''data'', JStr ''QUJD'')])],
              JObj [(''text'', JStr ''hi'')]])]),
           (''turnComplete'', JBool True)])]),
      (''audio then empty text'',
         JObj [(''serverContent'', JObj [
           (''modelTurn'', JObj [(''parts'', JArr [
              JObj [(''inlineData'', JObj [(''data'', JStr ''QUJD'')])],
              JObj [(''text'', JStr [])]])]),
           (''turnComplete'', JBool True)])])]"

text \<open>
  A decoded client frame without a usable \<^verbatim>\<open>type\<close> or \<^verbatim>\<open>data\<close>: the key is absent or
  its value is null; a value that is no JSON object has neither.
\<close>

definition lacks_type_or_data :: "json \<Rightarrow> bool" where
  "lacks_type_or_data j =
     (case j of
        JObj kv \<Rightarrow> map_of kv ''type'' = None \<or> map_of kv ''type'' = Some JNull
                  \<or> map_of kv ''data'' = None \<or> map_of kv ''data'' = Some JNull
      | _ \<Rightarrow> True)"

text \<open>What a session was sent on its client websocket, in order.\<close>

fun sent_to_client :: "nat \<Rightarrow> (nat \<times> task \<times> event) list \<Rightarrow> json list" where
  "sent_to_client sid [] = []"
| "sent_to_client sid ((s, t, WsSendJson j) # tr) =
     (if s = sid then j # sent_to_client sid tr else sent_to_client sid tr)"
| "sent_to_client sid (x # tr) = sent_to_client sid tr"



text \<open>
  A session up to the start of relaying: accepted, configured with a voice and a system
  prompt, connected on handle \<open>h\<close>, setup sent and acknowledged.
\<close>

definition handshake :: "nat \<Rightarrow> string \<Rightarrow> handle \<Rightarrow> action list" where
  "handshake sid cid h =
     [Open sid cid,
      Resume sid Sup (Returns VNone),
      Resume sid Sup (Returns (VJson (JObj [(''type'', JStr ''config''),
         (''config'', JObj [(''voice'', JStr ''Puck''), (''systemPrompt'', JStr ''Be brief.'')])]))),
      Resume sid Sup (Returns (VHandle h)),
      Resume sid Sup (Returns VNone),
      Resume sid Sup (Returns (VText ''setup complete''))]"


text \<open>
  A relay envelope of one of the four kinds the pump builds: its \<^verbatim>\<open>type\<close> is
  \<^verbatim>\<open>audio\<close>, \<^verbatim>\<open>text\<close>, \<^verbatim>\<open>turn_complete\<close> or \<^verbatim>\<open>error\<close>.
\<close>

definition relay_envelope_ok :: "json \<Rightarrow> bool" where
  "relay_envelope_ok j =
     (py_get j ''type'' JNull = Inr (JStr ''audio'')
      \<or> py_get j ''type'' JNull = Inr (JStr ''text'')
      \<or> py_get j ''type'' JNull = Inr (JStr ''turn_complete'')
      \<or> py_get j ''type'' JNull = Inr (JStr ''error''))"

text \<open>
  A call is in order if it is no \<^verbatim>\<open>send_json\<close>, or sends such an envelope.
\<close>

fun event_ok :: "event \<Rightarrow> bool" where
  "event_ok (WsSendJson j) = relay_envelope_ok j"
| "event_ok e = True"





text \<open>
  The first message, as bound to \<^verbatim>\<open>config_data\<close> (line 167): a JSON object whose
  \<^verbatim>\<open>type\<close> is \<^verbatim>\<open>config\<close>, and a JSON object whose \<^verbatim>\<open>type\<close> is anything else (or
  absent).
\<close>

definition is_config :: "json option \<Rightarrow> bool" where
  "is_config cd =
     (case cd of Some (JObj kv) \<Rightarrow> map_of kv ''type'' = Some (JStr ''config'') | _ \<Rightarrow> False)"

definition rejected :: "json option \<Rightarrow> bool" where
  "rejected cd =
     (case cd of Some (JObj kv) \<Rightarrow> map_of kv ''type'' \<noteq> Some (JStr ''config'') | _ \<Rightarrow> False)"




text \<open>
  Worked examples. A complete session: handshake, one client text frame relayed upstream,
  one provider message relayed to the client, client disconnect, teardown. A session
  whose first message is an envelope of type \<^verbatim>\<open>text\<close>. A session whose first message is
  the JSON array \<^verbatim>\<open>[]\<close>.
\<close>

definition example_relay :: "action list" where
  "example_relay =
     handshake 0 ''alice'' 7 @
     [Resume 0 CPump (Returns VNone),
      Resume 0 GPump (Returns VNone),
      Resume 0 CPump (Returns (VMessage (TextFrame ''text hello''))),
      Resume 0 CPump (Returns VNone),
      Resume 0 GPump (Returns (VText ''audio then text'')),
      Resume 0 GPump (Returns VNone),
      Resume 0 GPump (Returns VNone),
      Resume 0 GPump (Returns VNone),
      ClientState 0 True,
      Resume 0 CPump (Returns (VMessage Disconnect)),
      Resume 0 GPump (Raises (Fault ClosedOK [])),
      Resume 0 Sup (Returns VNone)]"

definition example_session :: "action list" where
  "example_session = example_relay @ [Resume 0 Sup (Returns VNone)]"





text \<open>
  The supervisor has ended.
\<close>

fun finished :: "sup_pc \<Rightarrow> bool" where
  "finished (SDone e) = True"
| "finished pc = False"

text \<open>
  Session \<open>sid\<close> has its client id to itself: while it is open and its supervisor has not
  ended, the supervisor of every other session with the same client id has ended.
\<close>

definition exclusive :: "nat \<Rightarrow> system \<Rightarrow> bool" where
  "exclusive sid st =
     (\<forall>sid' s s'. sessions st sid = Some s \<and> \<not> finished (sup s) \<and> sid' \<noteq> sid
        \<and> sessions st sid' = Some s' \<and> client_id s' = client_id s \<longrightarrow> finished (sup s'))"

text \<open>
  That holds in every state the schedule passes through, from \<open>st\<close> on.
\<close>

fun alone :: "nat \<Rightarrow> (string \<Rightarrow> json option) \<Rightarrow> system \<Rightarrow> action list \<Rightarrow> bool" where
  "alone sid loads st [] = exclusive sid st"
| "alone sid loads st (a # as) = (exclusive sid st \<and> alone sid loads (sys_step loads st a) as)"

text \<open>
  Every entry of the registry names the object of a session with that client id.
\<close>

definition registry_ok :: "system \<Rightarrow> bool" where
  "registry_ok st =
     (\<forall>c r. connections (proc st) c = Some r \<longrightarrow> (\<exists>s. sessions st r = Some s \<and> client_id s = c))"

text \<open>
  No other supervisor is suspended in the \<^verbatim>\<open>ws.close()\<close> of the object of session \<open>sid\<close>.
\<close>

definition nobody_else :: "nat \<Rightarrow> system \<Rightarrow> bool" where
  "nobody_else sid st =
     (\<forall>sid' s'. sid' \<noteq> sid \<and> sessions st sid' = Some s' \<longrightarrow> sup s' \<noteq> STeardown sid)"

text \<open>
  The object of session \<open>sid\<close> has no handle and the registry has no entry naming it.
\<close>

definition untouched :: "nat \<Rightarrow> process \<Rightarrow> bool" where
  "untouched sid p = (ws (heap p sid) = None \<and> (\<forall>c. connections p c \<noteq> Some sid))"

text \<open>
  What a supervisor that has its client id \<open>c\<close> to itself can rely on, by program counter:
  before registration and after a clean end its object is untouched; from registration to
  teardown the entry under \<open>c\<close> names its own object; a supervisor whose construction
  failed closes what the registry holds, never its own object.
\<close>

fun own :: "sup_pc \<Rightarrow> nat \<Rightarrow> string \<Rightarrow> process \<Rightarrow> bool" where
  "own SAccept sid c p = untouched sid p"
| "own SClose1011 sid c p = (connections p c = Some sid \<or> untouched sid p)"
| "own (STeardown r) sid c p =
     ((r = sid \<and> connections p c = Some sid) \<or> (r \<noteq> sid \<and> untouched sid p))"
| "own (SDone None) sid c p = untouched sid p"
| "own (SDone (Some e)) sid c p = True"
| "own pc sid c p = (connections p c = Some sid)"

text \<open>
  More worked examples. A session 1 of client id \<^verbatim>\<open>alice\<close> that is rejected and ends.
  A run in which that session opens and ends while session 0, of the same client id, is
  relaying, and session 0 then ends. A run in which session 0 registers, session 1 of the
  same client id registers, connects and relays, and session 0 is then rejected.
\<close>

definition earlier_session :: "action list" where
  "earlier_session =
     [Open 1 ''alice'',
      Resume 1 Sup (Returns VNone),
      Resume 1 Sup (Returns (VJson (JObj [(''type'', JStr ''text'')]))),
      Resume 1 Sup (Returns VNone),
      Resume 1 Sup (Returns VNone)]"


definition shared_id_sessions :: "action list" where
  "shared_id_sessions =
     [Open 0 ''alice'',
      Resume 0 Sup (Returns VNone)] @
     handshake 1 ''alice'' 8 @
     [Resume 0 Sup (Returns (VJson (JObj [(''type'', JStr ''text'')]))),
      Resume 0 Sup (Returns VNone)]"

text \<open>
  Program counters from registration up to the start of teardown.
\<close>

fun registered_phase :: "sup_pc \<Rightarrow> bool" where
  "registered_phase SReceiveJson = True"
| "registered_phase SClose1008 = True"
| "registered_phase SConnect = True"
| "registered_phase SSetupSend = True"
| "registered_phase SSetupRecv = True"
| "registered_phase SGather = True"
| "registered_phase pc = False"

text \<open>
  The invariant behind claims C2 and C10, for one session.
\<close>

definition cleanup_inv :: "nat \<Rightarrow> system \<Rightarrow> bool" where
  "cleanup_inv sid st =
     (registry_ok st
      \<and> (case sessions st sid of
            None \<Rightarrow> nobody_else sid st \<and> untouched sid (proc st)
          | Some s \<Rightarrow>
              finished (sup s)
              \<or> (nobody_else sid st \<and> own (sup s) sid (client_id s) (proc st))))"

section \<open>Properties\<close>

subsection \<open>One resumption of a pump\<close>

text \<open>
  Claim C8. A message that \<^verbatim>\<open>json.loads\<close> rejects is handled differently by the two
  pumps: the Upstream-to-Client Pump, resumed with it from \<^verbatim>\<open>recv\<close>, ends at once and sends
  nothing; the Client-to-Upstream Pump, resumed with it from \<^verbatim>\<open>receive\<close>, goes back to the
  head of its loop, where it waits for the next frame unless the client is seen
  disconnected.
\<close>

theorem parse_failure_asymmetry:
  assumes "loads m = None"
  shows "gpump_step loads disc self GRecv (Returns (VText m)) = (GDone, [])
       \<and> cpump_step loads disc self (CReceive bound) (Returns (VMessage (TextFrame m)))
           = (if disc then (CDone, []) else (CReceive True, [WsReceive]))"
  using assms by (simp add: gpump_message_def gpump_except_def cpump_text_def cpump_except_def cpump_head_def)

text \<open>
  Claim C7. A client text frame whose decoded envelope lacks a non-null \<^verbatim>\<open>type\<close> or a
  non-null \<^verbatim>\<open>data\<close> is discarded: the pump does not end, its only call is the next
  \<^verbatim>\<open>websocket.receive()\<close>, and no method of the Upstream Session is entered.
\<close>

theorem invalid_envelope_skipped:
  assumes "loads s = Some j" and "lacks_type_or_data j" and "\<not> disc"
  shows "cpump_step loads disc self (CReceive bound) (Returns (VMessage (TextFrame s)))
           = (CReceive True, [WsReceive])"
  using assms
  by (cases j) (auto simp: lacks_type_or_data_def cpump_text_def cpump_except_def cpump_head_def)



text \<open>
  Claim C8 at a concrete frame.
\<close>

theorem parse_failure_asymmetry_witness:
  "example_loads ''{'' = None
   \<and> gpump_step example_loads False (unallocated\<lparr>ws := Some 7\<rparr>) GRecv (Returns (VText ''{'')) = (GDone, [])
   \<and> cpump_step example_loads False (unallocated\<lparr>ws := Some 7\<rparr>) (CReceive True)
        (Returns (VMessage (TextFrame ''{''))) = (CReceive True, [WsReceive])"
proof -
  have h: "example_loads ''{'' = None" by (simp add: example_loads_def)
  show ?thesis
    using h parse_failure_asymmetry
            [of example_loads "''{''" False "unallocated\<lparr>ws := Some 7\<rparr>" True]
    by simp
qed

text \<open>
  Claim C7 at a concrete frame.
\<close>

theorem invalid_envelope_skipped_witness:
  "example_loads ''text without data'' = Some (JObj [(''type'', JStr ''text'')])
   \<and> lacks_type_or_data (JObj [(''type'', JStr ''text'')])
   \<and> cpump_step example_loads False (unallocated\<lparr>ws := Some 7\<rparr>) (CReceive True)
        (Returns (VMessage (TextFrame ''text without data''))) = (CReceive True, [WsReceive])"
proof -
  have h1: "example_loads ''text without data'' = Some (JObj [(''type'', JStr ''text'')])"
    by (simp add: example_loads_def)
  have h2: "lacks_type_or_data (JObj [(''type'', JStr ''text'')])"
    by (simp add: lacks_type_or_data_def)
  have h3: "\<not> False" by simp
  show ?thesis
    using h1 h2 h3 invalid_envelope_skipped
            [of example_loads "''text without data''" "JObj [(''type'', JStr ''text'')]" False
                "unallocated\<lparr>ws := Some 7\<rparr>" True]
    by simp
qed


subsection \<open>The parts of a provider message\<close>

lemmas sup_defs = sup_except_def sup_finally_def sup_closed_def sup_accepted_def sup_config_def
  sup_opened_def sup_setup_sent_def sup_handshaken_def commit_def new_session_def
  gemini_init_def set_config_def setup_message_def















subsection \<open>The configuration check of connect\<close>

text \<open>
  Claim C4 against the code. The first message \<^verbatim>\<open>{"type": "config", "config": null}\<close>
  leaves the configuration unset; \<^verbatim>\<open>connect()\<close> opens the connection and stores the
  handle (line 43) before it tests the configuration (line 49), so the ValueError leaves
  the handle set. No setup message is sent.
\<close>

theorem connect_opens_before_checking_config:
  "ws (heap (proc (run example_loads (init (Some ''secret''))
        [Open 0 ''alice'',
         Resume 0 Sup (Returns VNone),
         Resume 0 Sup (Returns (VJson (JObj [(''type'', JStr ''config''), (''config'', JNull)]))),
         Resume 0 Sup (Returns (VHandle 7))])) 0) = Some 7
   \<and> map (snd \<circ> snd) (trace (run example_loads (init (Some ''secret''))
        [Open 0 ''alice'',
         Resume 0 Sup (Returns VNone),
         Resume 0 Sup (Returns (VJson (JObj [(''type'', JStr ''config''), (''config'', JNull)]))),
         Resume 0 Sup (Returns (VHandle 7))]))
     = [WsAccept, WsReceiveJson, ConnectCalled,
        UpConnect (''wss://generativelanguage.googleapis.com/ws/''
                   @ ''google.ai.generativelanguage.v1alpha.GenerativeService.BidiGenerateContent''
                   @ ''?key=secret''),
        WsClose 1011 ''Server error: Configuration must be set before connecting'']"
  by (simp add: run_def init_def sup_defs)

subsection \<open>Runs of the process\<close>

lemma run_snoc: "run loads st (sched @ [a]) = sys_step loads (run loads st sched) a"
  by (simp add: run_def)

lemma run_Nil: "run loads st [] = st"
  by (simp add: run_def)

lemma trace_commit:
  "trace (commit sid t (p, s, evs) st) = trace st @ map (\<lambda>e. (sid, t, e)) evs"
  by (simp add: commit_def)

lemma sessions_commit:
  "sessions (commit sid t (p, s, evs) st) = (sessions st)(sid \<mapsto> s)"
  by (simp add: commit_def)

lemma proc_commit: "proc (commit sid t (p, s, evs) st) = p"
  by (simp add: commit_def)

subsection \<open>Envelopes\<close>

lemma gpump_head_ok: "list_all event_ok evs \<Longrightarrow> list_all event_ok (snd (gpump_head disc self evs))"
  by (simp add: gpump_head_def split: option.splits)

lemma gpump_except_ok: "list_all event_ok (snd (gpump_except e disc))"
  by (simp add: gpump_except_def relay_envelope_ok_def)

lemma gpump_error_ok: "list_all event_ok (snd (gpump_error disc self response))"
  by (simp add: gpump_error_def gpump_except_ok gpump_head_ok relay_envelope_ok_def
        split: sum.splits bool.splits)

lemma gpump_turn_ok: "list_all event_ok (snd (gpump_turn disc self sc response))"
  by (simp add: gpump_turn_def gpump_except_ok gpump_error_ok relay_envelope_ok_def
        split: sum.splits)

lemma gpump_parts_ok: "list_all event_ok (snd (gpump_parts disc self sc response ps))"
  by (induction ps)
     (auto simp: gpump_turn_ok gpump_except_ok relay_envelope_ok_def split: sum.splits bool.splits)

lemma gpump_message_ok: "list_all event_ok (snd (gpump_message loads disc self msg))"
  by (simp add: gpump_message_def gpump_except_ok gpump_parts_ok split: option.splits sum.splits)

lemma gpump_step_ok: "list_all event_ok (snd (gpump_step loads disc self pc r))"
  by (cases "(loads, disc, self, pc, r)" rule: gpump_step.cases)
     (simp_all add: gpump_head_ok gpump_except_ok gpump_error_ok gpump_parts_ok gpump_message_ok)

lemma cpump_head_ok: "list_all event_ok evs \<Longrightarrow> list_all event_ok (snd (cpump_head disc b evs))"
  by (simp add: cpump_head_def)

lemma cpump_except_ok: "list_all event_ok evs \<Longrightarrow> list_all event_ok (snd (cpump_except e disc b evs))"
  by (simp add: cpump_except_def cpump_head_ok)

lemma cpump_sent_ok: "list_all event_ok evs \<Longrightarrow> list_all event_ok (snd (cpump_sent disc self evs))"
  by (simp add: cpump_sent_def cpump_head_ok)

lemma on_wire_ok: "list_all event_ok (on_wire self j)"
  by (simp add: on_wire_def split: option.splits)

lemma cpump_text_ok: "list_all event_ok (snd (cpump_text loads disc self s))"
  by (simp add: cpump_text_def cpump_except_ok cpump_head_ok cpump_sent_ok on_wire_ok
        send_audio_def send_image_def send_text_def split: option.splits sum.splits)

lemma cpump_step_ok: "list_all event_ok (snd (cpump_step loads disc self pc r))"
  by (cases "(loads, disc, self, pc, r)" rule: cpump_step.cases)
     (simp_all add: cpump_head_ok cpump_except_ok cpump_text_ok)

lemma sup_resume_ok: "list_all event_ok (snd (snd (sup_resume pc r sid p s)))"
  by (cases "(pc, r, sid, p, s)" rule: sup_resume.cases)
     (simp_all add: sup_except_def sup_finally_def sup_closed_def sup_accepted_def sup_config_def
        sup_opened_def sup_setup_sent_def sup_handshaken_def Let_def
        split: option.splits sum.splits)

lemma list_all_tag: "list_all (\<lambda>(sid, t, e). P e) (map (\<lambda>e. (sid, t, e)) evs) = list_all P evs"
  by (induction evs) simp_all

lemma step_envelopes:
  assumes "list_all (\<lambda>(sid, t, e). event_ok e) (trace st)"
  shows "list_all (\<lambda>(sid, t, e). event_ok e) (trace (sys_step loads st a))"
proof (cases a)
  case (Open sid cid)
  then show ?thesis using assms by (simp add: trace_commit split: option.splits)
next
  case (ClientState sid b)
  then show ?thesis using assms by (simp split: option.splits)
next
  case (Resume sid t r)
  show ?thesis
  proof (cases "sessions st sid")
    case None
    then show ?thesis using assms Resume by (cases t) simp_all
  next
    case (Some s)
    show ?thesis
    proof (cases t)
      case Sup
      obtain p' s' evs where res: "sup_resume (sup s) r sid (proc st) s = (p', s', evs)"
        by (cases "sup_resume (sup s) r sid (proc st) s") auto
      have "list_all event_ok evs" using sup_resume_ok [of "sup s" r sid "proc st" s] res by simp
      then show ?thesis using assms Resume Some Sup res by (simp add: trace_commit list_all_tag)
    next
      case CPump
      obtain pc evs where res: "cpump_step loads (disconnected s) (heap (proc st) sid) (cpump s) r = (pc, evs)"
        by (cases "cpump_step loads (disconnected s) (heap (proc st) sid) (cpump s) r") auto
      have "list_all event_ok evs"
        using cpump_step_ok [of loads "disconnected s" "heap (proc st) sid" "cpump s" r] res by simp
      then show ?thesis using assms Resume Some CPump res by (simp add: trace_commit list_all_tag)
    next
      case GPump
      obtain pc evs where res: "gpump_step loads (disconnected s) (heap (proc st) sid) (gpump s) r = (pc, evs)"
        by (cases "gpump_step loads (disconnected s) (heap (proc st) sid) (gpump s) r") auto
      have "list_all event_ok evs"
        using gpump_step_ok [of loads "disconnected s" "heap (proc st) sid" "gpump s" r] res by simp
      then show ?thesis using assms Resume Some GPump res by (simp add: trace_commit list_all_tag)
    qed
  qed
qed

text \<open>
  Claim C9. In every run of the process, with any decoder, any schedule and any outcomes
  of the calls, every envelope passed to \<^verbatim>\<open>send_json\<close> has \<^verbatim>\<open>type\<close> \<^verbatim>\<open>audio\<close>, \<^verbatim>\<open>text\<close>,
  \<^verbatim>\<open>turn_complete\<close> or \<^verbatim>\<open>error\<close>; the initial \<^verbatim>\<open>{"type": "unknown"}\<close> of line 268 is never
  sent.
\<close>

theorem only_known_envelopes_sent:
  "list_all (\<lambda>(sid, t, e). event_ok e) (trace (run loads (init key) sched))"
proof (induction sched rule: rev_induct)
  case Nil
  show ?case by (simp add: run_Nil init_def)
next
  case (snoc a sched)
  then show ?case by (simp add: run_snoc step_envelopes)
qed

subsection \<open>The steps of the process\<close>

text \<open>
  What one step of the process can be.
\<close>

lemma sys_step_cases [case_names Stutter Open ClientState Sup CPump GPump]:
  obtains
    (Stutter) "sys_step loads st a = st"
  | (Open) sid cid where "a = Open sid cid" "sessions st sid = None"
      "sys_step loads st a = commit sid Sup (proc st, new_session cid, [WsAccept]) st"
  | (ClientState) sid b s where "a = ClientState sid b" "sessions st sid = Some s"
      "sys_step loads st a = st \<lparr> sessions := (sessions st)(sid \<mapsto> s \<lparr> disconnected := b \<rparr>) \<rparr>"
  | (Sup) sid r s p' s' evs where "a = Resume sid Sup r" "sessions st sid = Some s"
      "sup_resume (sup s) r sid (proc st) s = (p', s', evs)"
      "sys_step loads st a = commit sid Sup (p', s', evs) st"
  | (CPump) sid r s pc evs where "a = Resume sid CPump r" "sessions st sid = Some s"
      "cpump_step loads (disconnected s) (heap (proc st) sid) (cpump s) r = (pc, evs)"
      "sys_step loads st a = commit sid CPump (proc st, s \<lparr> cpump := pc \<rparr>, evs) st"
  | (GPump) sid r s pc evs where "a = Resume sid GPump r" "sessions st sid = Some s"
      "gpump_step loads (disconnected s) (heap (proc st) sid) (gpump s) r = (pc, evs)"
      "sys_step loads st a = commit sid GPump (proc st, s \<lparr> gpump := pc \<rparr>, evs) st"
proof (cases a)
  case (Open sid cid)
  then show ?thesis using that(1,2) by (cases "sessions st sid") simp_all
next
  case (ClientState sid b)
  then show ?thesis using that(1,3) by (cases "sessions st sid") simp_all
next
  case (Resume sid t r)
  show ?thesis
  proof (cases "sessions st sid")
    case None
    then show ?thesis using Resume that(1) by (cases t) simp_all
  next
    case (Some s)
    show ?thesis
    proof (cases t)
      case Sup
      obtain p' s' evs where "sup_resume (sup s) r sid (proc st) s = (p', s', evs)"
        by (cases "sup_resume (sup s) r sid (proc st) s") auto
      then show ?thesis using Resume Some Sup that(4) by simp
    next
      case CPump
      obtain pc evs where
        "cpump_step loads (disconnected s) (heap (proc st) sid) (cpump s) r = (pc, evs)"
        by (cases "cpump_step loads (disconnected s) (heap (proc st) sid) (cpump s) r") auto
      then show ?thesis using Resume Some CPump that(5) by simp
    next
      case GPump
      obtain pc evs where
        "gpump_step loads (disconnected s) (heap (proc st) sid) (gpump s) r = (pc, evs)"
        by (cases "gpump_step loads (disconnected s) (heap (proc st) sid) (gpump s) r") auto
      then show ?thesis using Resume Some GPump that(6) by simp
    qed
  qed
qed

subsection \<open>Handshake before pumps\<close>











subsection \<open>The first message\<close>

lemma is_config_None [simp]: "\<not> is_config None"
  by (simp add: is_config_def)

lemma rejected_None [simp]: "\<not> rejected None"
  by (simp add: rejected_def)








subsection \<open>The worked examples\<close>

lemmas eval_defs = run_def init_def handshake_def sup_except_def sup_finally_def sup_closed_def
  sup_accepted_def sup_config_def sup_opened_def sup_setup_sent_def sup_handshaken_def
  commit_def new_session_def gemini_init_def set_config_def setup_message_def
  gpump_head_def gpump_message_def gpump_turn_def gpump_error_def gpump_except_def
  cpump_head_def cpump_text_def cpump_sent_def cpump_except_def
  send_audio_def send_image_def send_text_def on_wire_def example_loads_def

lemma example_session_trace:
  "trace (run example_loads (init (Some ''secret'')) example_session) =
     [(0, Sup, WsAccept), (0, Sup, WsReceiveJson), (0, Sup, ConnectCalled),
      (0, Sup, UpConnect (''wss://generativelanguage.googleapis.com/ws/''
         @ ''google.ai.generativelanguage.v1alpha.GenerativeService.BidiGenerateContent''
         @ ''?key=secret'')),
      (0, Sup, UpSend 7 (JObj [(''setup'', JObj [
         (''model'', JStr ''models/gemini-2.0-flash-exp''),
         (''generation_config'', JObj [
            (''response_modalities'', JArr [JStr ''AUDIO'']),
            (''speech_config'', JObj [
               (''voice_config'', JObj [
                  (''prebuilt_voice_config'', JObj [(''voice_name'', JStr ''Puck'')])])])]),
         (''system_instruction'', JObj [
            (''parts'', JArr [JObj [(''text'', JStr ''Be brief.'')]])])])])),
      (0, Sup, UpRecv 7), (0, Sup, ConnectReturned ''setup complete''),
      (0, CPump, WsReceive), (0, GPump, ReceiveCalled), (0, GPump, UpRecv 7),
      (0, CPump, SendText (JStr ''hello'')),
      (0, CPump, UpSend 7 (text_message (JStr ''hello''))),
      (0, CPump, WsReceive),
      (0, GPump, WsSendJson (JObj [(''type'', JStr ''audio''), (''data'', JStr ''QUJD'')])),
      (0, GPump, WsSendJson (JObj [(''type'', JStr ''text''), (''text'', JStr ''hi'')])),
      (0, GPump, WsSendJson (JObj [(''type'', JStr ''turn_complete''), (''data'', JBool True)])),
      (0, GPump, ReceiveCalled), (0, GPump, UpRecv 7),
      (0, Sup, CloseOf 0), (0, Sup, UpClose 7)]"
  by (simp add: example_session_def example_relay_def eval_defs)



text \<open>
  Claim C9 on the complete example session, which sends three envelopes; an envelope of
  type \<^verbatim>\<open>unknown\<close> would not pass.
\<close>

theorem only_known_envelopes_sent_witness:
  "list_all (\<lambda>(sid, t, e). event_ok e)
     (trace (run example_loads (init (Some ''secret'')) example_session))
   \<and> sent_to_client 0 (trace (run example_loads (init (Some ''secret'')) example_session))
       = [JObj [(''type'', JStr ''audio''), (''data'', JStr ''QUJD'')],
          JObj [(''type'', JStr ''text''), (''text'', JStr ''hi'')],
          JObj [(''type'', JStr ''turn_complete''), (''data'', JBool True)]]
   \<and> \<not> event_ok (WsSendJson (JObj [(''type'', JStr ''unknown'')]))"
  using only_known_envelopes_sent [of example_loads "Some ''secret''" example_session]
  by (simp add: example_session_trace relay_envelope_ok_def)




subsection \<open>Teardown and the registry\<close>

lemmas sup_block_defs = sup_except_def sup_finally_def sup_closed_def sup_accepted_def
  sup_config_def sup_opened_def sup_setup_sent_def sup_handshaken_def

lemma sup_resume_client_id:
  assumes "sup_resume pc r sid p s = (p', s', evs)"
  shows "client_id s' = client_id s"
  using assms
  by (cases "(pc, r, sid, p, s)" rule: sup_resume.cases)
     (auto simp: sup_block_defs Let_def split: option.splits sum.splits if_splits)

lemma sup_resume_finished:
  assumes "sup_resume pc r sid p s = (p', s', evs)" and "finished pc"
  shows "p' = p \<and> s' = s \<and> evs = []"
  using assms by (cases pc) auto

lemma sup_resume_registry_frame:
  assumes "sup_resume pc r sid p s = (p', s', evs)"
  shows "(\<forall>c. c \<noteq> client_id s \<longrightarrow> connections p' c = connections p c)
       \<and> (connections p' (client_id s) = connections p (client_id s)
            \<or> connections p' (client_id s) = None
            \<or> connections p' (client_id s) = Some sid)"
  using assms
  by (cases "(pc, r, sid, p, s)" rule: sup_resume.cases)
     (auto simp: sup_block_defs Let_def split: option.splits sum.splits if_splits)

lemma sup_resume_heap_frame:
  assumes "sup_resume pc r sid p s = (p', s', evs)" and "x \<noteq> sid" and "pc \<noteq> STeardown x"
  shows "heap p' x = heap p x"
  using assms
  by (cases "(pc, r, sid, p, s)" rule: sup_resume.cases)
     (auto simp: sup_block_defs Let_def split: option.splits sum.splits if_splits)

lemma sup_resume_teardown_target:
  assumes "sup_resume (sup s) r sid p s = (p', s', evs)" and "sup s' = STeardown x"
  shows "sup s = STeardown x \<or> connections p (client_id s) = Some x"
  using assms
  by (cases "(sup s, r, sid, p, s)" rule: sup_resume.cases)
     (auto simp: sup_block_defs Let_def split: option.splits sum.splits if_splits)

lemma sup_resume_own:
  assumes "sup_resume (sup s) r sid p s = (p', s', evs)"
      and "own (sup s) sid (client_id s) p"
      and "\<forall>c. c \<noteq> client_id s \<longrightarrow> connections p c \<noteq> Some sid"
  shows "own (sup s') sid (client_id s) p'"
  using assms
  by (cases "(sup s, r, sid, p, s)" rule: sup_resume.cases)
     (auto simp: sup_block_defs Let_def untouched_def split: option.splits sum.splits if_splits)


lemma alone_snoc:
  "alone sid loads st (xs @ [a])
     = (alone sid loads st xs \<and> exclusive sid (run loads st (xs @ [a])))"
  by (induction xs arbitrary: st) (auto simp: run_def)

lemma alone_last: "alone sid loads st xs \<Longrightarrow> exclusive sid (run loads st xs)"
  by (induction xs arbitrary: st) (auto simp: run_def)

lemma registry_ok_step:
  assumes "registry_ok st"
  shows "registry_ok (sys_step loads st a)"
proof (cases rule: sys_step_cases [of loads st a])
  case Stutter
  then show ?thesis using assms by simp
next
  case (Open sid' cid)
  then show ?thesis using assms
    by (fastforce simp: registry_ok_def proc_commit sessions_commit)
next
  case (ClientState sid' b s)
  then show ?thesis using assms by (fastforce simp: registry_ok_def)
next
  case (Sup sid' r s p' s' evs)
  note cid = sup_resume_client_id [OF Sup(3)]
  note frame = sup_resume_registry_frame [OF Sup(3)]
  show ?thesis
    unfolding registry_ok_def Sup(4) proc_commit sessions_commit
  proof (intro allI impI)
    fix c x
    assume reg: "connections p' c = Some x"
    show "\<exists>t. ((sessions st)(sid' \<mapsto> s')) x = Some t \<and> client_id t = c"
    proof (cases "x = sid'")
      case True
      have "client_id s = c"
      proof (cases "c = client_id s")
        case False
        then have "connections (proc st) c = Some sid'" using frame reg True by simp
        then show ?thesis using assms Sup(2) by (fastforce simp: registry_ok_def)
      qed simp
      then show ?thesis using True cid by simp
    next
      case False
      have "connections (proc st) c = Some x"
      proof (cases "c = client_id s")
        case True
        then show ?thesis using frame reg False by auto
      next
        case False
        then show ?thesis using frame reg by simp
      qed
      then show ?thesis using assms False by (fastforce simp: registry_ok_def)
    qed
  qed
next
  case (CPump sid' r s pc evs)
  then show ?thesis using assms
    by (fastforce simp: registry_ok_def proc_commit sessions_commit)
next
  case (GPump sid' r s pc evs)
  then show ?thesis using assms
    by (fastforce simp: registry_ok_def proc_commit sessions_commit)
qed

lemma sup_resume_registry_entry:
  assumes "sup_resume pc r sid' p s = (p', s', evs)" and "connections p' c = Some x"
  shows "connections p c = Some x \<or> (x = sid' \<and> c = client_id s)"
proof (cases "c = client_id s")
  case True
  then show ?thesis using sup_resume_registry_frame [OF assms(1)] assms(2) by auto
next
  case False
  then show ?thesis using sup_resume_registry_frame [OF assms(1)] assms(2) by simp
qed

lemma own_frame:
  assumes "own pc sid c p"
      and "connections p' c = connections p c" and "heap p' sid = heap p sid"
      and "\<forall>c'. connections p c' \<noteq> Some sid \<longrightarrow> connections p' c' \<noteq> Some sid"
  shows "own pc sid c p'"
  using assms by (cases "(pc, sid, c, p)" rule: own.cases) (auto simp: untouched_def)

lemma cleanup_inv_step:
  assumes inv: "cleanup_inv sid st" and ex: "exclusive sid st"
  shows "cleanup_inv sid (sys_step loads st a)"
proof -
  have reg: "registry_ok st" using inv by (simp add: cleanup_inv_def)
  have reg': "registry_ok (sys_step loads st a)" using reg by (rule registry_ok_step)
  show ?thesis
  proof (cases rule: sys_step_cases [of loads st a])
    case Stutter
    then show ?thesis using inv by simp
  next
    case (Open sid' cid)
    then show ?thesis using inv reg' [unfolded Open(3)]
      by (auto simp: cleanup_inv_def proc_commit sessions_commit nobody_else_def
            new_session_def split: option.splits)
  next
    case (ClientState sid' b s)
    then show ?thesis using inv reg' [unfolded ClientState(3)]
      by (auto simp: cleanup_inv_def nobody_else_def split: option.splits)
  next
    case (CPump sid' r s pc evs)
    then show ?thesis using inv reg' [unfolded CPump(4)]
      by (auto simp: cleanup_inv_def proc_commit sessions_commit nobody_else_def
            split: option.splits)
  next
    case (GPump sid' r s pc evs)
    then show ?thesis using inv reg' [unfolded GPump(4)]
      by (auto simp: cleanup_inv_def proc_commit sessions_commit nobody_else_def
            split: option.splits)
  next
    case (Sup sid' r s p' s' evs)
    note cid = sup_resume_client_id [OF Sup(3)]
    note frame = sup_resume_registry_frame [OF Sup(3)]
    note reg'' = reg' [unfolded Sup(4)]
    show ?thesis
    proof (cases "sid' = sid")
      case True
      show ?thesis
      proof (cases "finished (sup s)")
        case fin: True
        then have "s' = s" using sup_resume_finished [OF Sup(3)] by simp
        then show ?thesis using fin True reg'' Sup(4)
          by (simp add: cleanup_inv_def sessions_commit)
      next
        case False
        then have ne: "nobody_else sid st" and ow: "own (sup s) sid (client_id s) (proc st)"
          using inv Sup(2) True by (simp_all add: cleanup_inv_def)
        have only: "\<forall>c. c \<noteq> client_id s \<longrightarrow> connections (proc st) c \<noteq> Some sid"
          using reg Sup(2) True by (fastforce simp: registry_ok_def)
        have "own (sup s') sid (client_id s) p'"
          using sup_resume_own [OF Sup(3) [unfolded True] ow only] .
        moreover have "nobody_else sid (commit sid Sup (p', s', evs) st)"
          using ne by (auto simp: nobody_else_def sessions_commit)
        ultimately show ?thesis using reg'' True Sup(4) cid
          by (simp add: cleanup_inv_def sessions_commit proc_commit)
      qed
    next
      case other: False
      have same: "sessions (commit sid' Sup (p', s', evs) st) sid = sessions st sid"
        using other by (simp add: sessions_commit)
      show ?thesis
      proof (cases "sessions st sid")
        case None
        then have ne: "nobody_else sid st" and un: "untouched sid (proc st)"
          using inv by (simp_all add: cleanup_inv_def)
        have notd: "sup s \<noteq> STeardown sid" using ne Sup(2) other by (auto simp: nobody_else_def)
        have h: "heap p' sid = heap (proc st) sid"
          using sup_resume_heap_frame [OF Sup(3) _ notd] other by simp
        have c: "\<forall>c. connections p' c \<noteq> Some sid"
          using sup_resume_registry_entry [OF Sup(3)] un other by (fastforce simp: untouched_def)
        have "sup s' \<noteq> STeardown sid"
          using sup_resume_teardown_target [OF Sup(3)] notd un by (auto simp: untouched_def)
        then have "nobody_else sid (commit sid' Sup (p', s', evs) st)"
          using ne by (auto simp: nobody_else_def sessions_commit)
        moreover have "untouched sid p'" using h c un by (simp add: untouched_def)
        ultimately show ?thesis using reg'' None same Sup(4)
          by (simp add: cleanup_inv_def proc_commit)
      next
        case (Some t)
        show ?thesis
        proof (cases "finished (sup t)")
          case True
          then show ?thesis using reg'' Some same Sup(4) by (simp add: cleanup_inv_def)
        next
          case False
          then have ne: "nobody_else sid st" and ow: "own (sup t) sid (client_id t) (proc st)"
            using inv Some by (simp_all add: cleanup_inv_def)
          show ?thesis
          proof (cases "client_id s = client_id t")
            case True
            then have "finished (sup s)"
              using ex Some False Sup(2) other by (auto simp: exclusive_def)
            then have "p' = proc st" "s' = s" using sup_resume_finished [OF Sup(3)] by simp_all
            then have "nobody_else sid (commit sid' Sup (p', s', evs) st)"
              using ne Sup(2) by (auto simp: nobody_else_def sessions_commit)
            then show ?thesis using reg'' Some same Sup(4) ow \<open>p' = proc st\<close>
              by (simp add: cleanup_inv_def proc_commit)
          next
            case diff: False
            have notd: "sup s \<noteq> STeardown sid"
              using ne Sup(2) other by (auto simp: nobody_else_def)
            have h: "heap p' sid = heap (proc st) sid"
              using sup_resume_heap_frame [OF Sup(3) _ notd] other by simp
            have c1: "connections p' (client_id t) = connections (proc st) (client_id t)"
              using frame diff by simp
            have c2: "\<forall>c'. connections (proc st) c' \<noteq> Some sid \<longrightarrow> connections p' c' \<noteq> Some sid"
              using sup_resume_registry_entry [OF Sup(3)] other by fastforce
            have ow': "own (sup t) sid (client_id t) p'"
              using own_frame [OF ow c1 h c2] .
            have "connections (proc st) (client_id s) \<noteq> Some sid"
              using reg Some diff by (fastforce simp: registry_ok_def)
            then have "sup s' \<noteq> STeardown sid"
              using sup_resume_teardown_target [OF Sup(3)] notd by auto
            then have "nobody_else sid (commit sid' Sup (p', s', evs) st)"
              using ne by (auto simp: nobody_else_def sessions_commit)
            then show ?thesis using reg'' Some same Sup(4) ow'
              by (simp add: cleanup_inv_def proc_commit)
          qed
        qed
      qed
    qed
  qed
qed

lemma cleanup_inv_run:
  "alone sid loads (init key) sched \<Longrightarrow> cleanup_inv sid (run loads (init key) sched)"
proof (induction sched rule: rev_induct)
  case Nil
  show ?case
    by (simp add: run_Nil init_def cleanup_inv_def registry_ok_def nobody_else_def
          untouched_def unallocated_def)
next
  case (snoc a sched)
  then have "alone sid loads (init key) sched" by (simp add: alone_snoc)
  then show ?case using snoc.IH alone_last cleanup_inv_step by (simp add: run_snoc)
qed







lemma shared_id_state:
  "sessions (run example_loads (init (Some ''secret'')) shared_id_sessions) 0 =
     Some \<lparr> client_id = ''alice'', disconnected = False,
            config_data = Some (JObj [(''type'', JStr ''text'')]),
            sup = SClose1011, cpump = CIdle, gpump = GIdle \<rparr>
   \<and> map_option sup (sessions (run example_loads (init (Some ''secret'')) shared_id_sessions) 1)
       = Some SGather
   \<and> map_option client_id
         (sessions (run example_loads (init (Some ''secret'')) shared_id_sessions) 1)
       = Some ''alice''
   \<and> connections (proc (run example_loads (init (Some ''secret'')) shared_id_sessions)) ''alice''
       = Some 1
   \<and> ws (heap (proc (run example_loads (init (Some ''secret'')) shared_id_sessions)) 1) = Some 8"
  by (simp add: shared_id_sessions_def eval_defs)

text \<open>
  Claim C10. Registration stores the new object under the client id whatever was
  registered before. A supervisor that reaches its \<^verbatim>\<open>finally\<close> clause while the registry
  holds, under its client id, an object \<open>x\<close> with an open handle \<open>h\<close> closes \<open>h\<close>, nulls the
  handle of \<open>x\<close> and deletes the entry, whether or not \<open>x\<close> is its own object, and leaves
  every other session as it was. So there is a run in which a supervisor is relaying and
  the registry has no entry under its client id; while a session that has its client id
  to itself does find its own object registered from registration up to teardown.
\<close>

theorem shared_client_id_teardown:
  "(sessions st sid = Some s \<and> sup s = SAccept \<and> gemini_init (env_key (proc st)) = Inr g
      \<longrightarrow> connections (proc (sys_step loads st (Resume sid Sup (Returns v)))) (client_id s)
            = Some sid)
   \<and> (sessions st sid = Some s
        \<and> (sup s = SClose1011 \<or> (sup s = SGather \<and> cpump s = CDone \<and> gpump s = GDone))
        \<and> connections (proc st) (client_id s) = Some x \<and> ws (heap (proc st) x) = Some h
      \<longrightarrow> trace (run loads st [Resume sid Sup r, Resume sid Sup (Returns v)])
            = trace st @ [(sid, Sup, CloseOf x), (sid, Sup, UpClose h)]
          \<and> ws (heap (proc (run loads st [Resume sid Sup r, Resume sid Sup (Returns v)])) x) = None
          \<and> connections (proc (run loads st [Resume sid Sup r, Resume sid Sup (Returns v)]))
               (client_id s) = None
          \<and> (\<forall>sid'. sid' \<noteq> sid \<longrightarrow>
                sessions (run loads st [Resume sid Sup r, Resume sid Sup (Returns v)]) sid'
                  = sessions st sid'))
   \<and> (\<exists>sched sid' s'.
          sessions (run loads (init (Some ''secret'')) sched) sid' = Some s' \<and> sup s' = SGather
          \<and> connections (proc (run loads (init (Some ''secret'')) sched)) (client_id s') = None)
   \<and> (alone sid loads (init key) sched
        \<and> sessions (run loads (init key) sched) sid = Some s \<and> registered_phase (sup s)
      \<longrightarrow> connections (proc (run loads (init key) sched)) (client_id s) = Some sid)"
proof (intro conjI impI)
  assume "sessions st sid = Some s \<and> sup s = SAccept \<and> gemini_init (env_key (proc st)) = Inr g"
  then show "connections (proc (sys_step loads st (Resume sid Sup (Returns v)))) (client_id s)
               = Some sid"
    by (simp add: sup_accepted_def proc_commit)
next
  assume h: "sessions st sid = Some s
        \<and> (sup s = SClose1011 \<or> (sup s = SGather \<and> cpump s = CDone \<and> gpump s = GDone))
        \<and> connections (proc st) (client_id s) = Some x \<and> ws (heap (proc st) x) = Some h"
  let ?st' = "run loads st [Resume sid Sup r, Resume sid Sup (Returns v)]"
  have "trace ?st' = trace st @ [(sid, Sup, CloseOf x), (sid, Sup, UpClose h)]
      \<and> ws (heap (proc ?st') x) = None \<and> connections (proc ?st') (client_id s) = None
      \<and> (\<forall>sid'. sid' \<noteq> sid \<longrightarrow> sessions ?st' sid' = sessions st sid')"
    using h by (auto simp: run_def sup_finally_def sup_closed_def commit_def)
  then show "trace ?st' = trace st @ [(sid, Sup, CloseOf x), (sid, Sup, UpClose h)]"
    and "ws (heap (proc ?st') x) = None"
    and "connections (proc ?st') (client_id s) = None"
    and "\<forall>sid'. sid' \<noteq> sid \<longrightarrow> sessions ?st' sid' = sessions st sid'"
    by simp_all
next
  let ?sched = "shared_id_sessions @ [Resume 0 Sup (Returns VNone), Resume 0 Sup (Returns VNone)]"
  have "sessions (run loads (init (Some ''secret'')) ?sched) 1
          = Some \<lparr> client_id = ''alice'', disconnected = False,
              config_data = Some (JObj [(''type'', JStr ''config''),
                (''config'', JObj [(''voice'', JStr ''Puck''), (''systemPrompt'', JStr ''Be brief.'')])]),
              sup = SGather, cpump = CStart, gpump = GStart \<rparr>
        \<and> connections (proc (run loads (init (Some ''secret'')) ?sched)) ''alice'' = None"
    by (simp add: shared_id_sessions_def run_def init_def handshake_def sup_block_defs
          commit_def new_session_def gemini_init_def set_config_def setup_message_def)
  then show "\<exists>sched sid' s'.
          sessions (run loads (init (Some ''secret'')) sched) sid' = Some s' \<and> sup s' = SGather
          \<and> connections (proc (run loads (init (Some ''secret'')) sched)) (client_id s') = None"
    by (intro exI [of _ ?sched] exI [of _ 1]) auto
next
  assume h: "alone sid loads (init key) sched
        \<and> sessions (run loads (init key) sched) sid = Some s \<and> registered_phase (sup s)"
  then have "cleanup_inv sid (run loads (init key) sched)" by (simp add: cleanup_inv_run)
  then have "own (sup s) sid (client_id s) (proc (run loads (init key) sched))"
    using h by (cases "sup s") (auto simp: cleanup_inv_def)
  then show "connections (proc (run loads (init key) sched)) (client_id s) = Some sid"
    using h by (cases "sup s") auto
qed

lemma two_registrations_state:
  "sessions (run example_loads (init (Some ''secret''))
      [Open 0 ''alice'', Resume 0 Sup (Returns VNone), Open 1 ''alice'']) 1
     = Some (new_session ''alice'')
   \<and> env_key (proc (run example_loads (init (Some ''secret''))
      [Open 0 ''alice'', Resume 0 Sup (Returns VNone), Open 1 ''alice''])) = Some ''secret''
   \<and> connections (proc (run example_loads (init (Some ''secret''))
      [Open 0 ''alice'', Resume 0 Sup (Returns VNone), Open 1 ''alice''])) ''alice'' = Some 0"
  by (simp add: eval_defs)

lemma earlier_then_handshake:
  "alone 0 example_loads (init (Some ''secret'')) (earlier_session @ handshake 0 ''alice'' 7)
   \<and> map_option sup (sessions (run example_loads (init (Some ''secret''))
        (earlier_session @ handshake 0 ''alice'' 7)) 0) = Some SGather
   \<and> map_option client_id (sessions (run example_loads (init (Some ''secret''))
        (earlier_session @ handshake 0 ''alice'' 7)) 0) = Some ''alice''"
  by (simp add: earlier_session_def eval_defs exclusive_def)

text \<open>
  Claim C10 on two sessions of client id \<^verbatim>\<open>alice\<close>: the registration of session 1
  replaces the entry of session 0, and the teardown of session 0 closes handle 8 of
  session 1, which is still relaying; alone, session 0 finds itself registered.
\<close>

theorem shared_client_id_teardown_witness:
  "connections (proc (run example_loads (init (Some ''secret''))
      [Open 0 ''alice'', Resume 0 Sup (Returns VNone), Open 1 ''alice''])) ''alice'' = Some 0
   \<and> connections (proc (sys_step example_loads
        (run example_loads (init (Some ''secret''))
           [Open 0 ''alice'', Resume 0 Sup (Returns VNone), Open 1 ''alice''])
        (Resume 1 Sup (Returns VNone)))) ''alice'' = Some 1
   \<and> trace (run example_loads (run example_loads (init (Some ''secret'')) shared_id_sessions)
        [Resume 0 Sup (Returns VNone), Resume 0 Sup (Returns VNone)])
       = trace (run example_loads (init (Some ''secret'')) shared_id_sessions)
         @ [(0, Sup, CloseOf 1), (0, Sup, UpClose 8)]
   \<and> ws (heap (proc (run example_loads (run example_loads (init (Some ''secret'')) shared_id_sessions)
        [Resume 0 Sup (Returns VNone), Resume 0 Sup (Returns VNone)])) 1) = None
   \<and> connections (proc (run example_loads
        (run example_loads (init (Some ''secret'')) shared_id_sessions)
        [Resume 0 Sup (Returns VNone), Resume 0 Sup (Returns VNone)])) ''alice'' = None
   \<and> map_option sup (sessions (run example_loads
        (run example_loads (init (Some ''secret'')) shared_id_sessions)
        [Resume 0 Sup (Returns VNone), Resume 0 Sup (Returns VNone)]) 1) = Some SGather
   \<and> connections (proc (run example_loads (init (Some ''secret''))
        (earlier_session @ handshake 0 ''alice'' 7))) ''alice'' = Some 0"
proof -
  let ?st1 = "run example_loads (init (Some ''secret''))
                [Open 0 ''alice'', Resume 0 Sup (Returns VNone), Open 1 ''alice'']"
  let ?st2 = "run example_loads (init (Some ''secret'')) shared_id_sessions"
  let ?st3 = "run example_loads (init (Some ''secret'')) (earlier_session @ handshake 0 ''alice'' 7)"
  let ?s0 = "\<lparr> client_id = ''alice'', disconnected = False,
               config_data = Some (JObj [(''type'', JStr ''text'')]),
               sup = SClose1011, cpump = CIdle, gpump = GIdle \<rparr>"
  obtain g where g: "gemini_init (Some ''secret'') = Inr g" by (simp add: gemini_init_def)
  obtain t where t: "sessions ?st3 0 = Some t" "sup t = SGather" "client_id t = ''alice''"
    using earlier_then_handshake by auto
  have a: "connections (proc (sys_step example_loads ?st1 (Resume 1 Sup (Returns VNone)))) ''alice''
             = Some 1"
    using shared_client_id_teardown
            [where st = ?st1 and sid = 1 and s = "new_session ''alice''" and g = g
               and loads = example_loads and v = VNone, THEN conjunct1]
          two_registrations_state g
    by (simp add: new_session_def)
  have b: "trace (run example_loads ?st2 [Resume 0 Sup (Returns VNone), Resume 0 Sup (Returns VNone)])
             = trace ?st2 @ [(0, Sup, CloseOf 1), (0, Sup, UpClose 8)]
         \<and> ws (heap (proc (run example_loads ?st2
               [Resume 0 Sup (Returns VNone), Resume 0 Sup (Returns VNone)])) 1) = None
         \<and> connections (proc (run example_loads ?st2
               [Resume 0 Sup (Returns VNone), Resume 0 Sup (Returns VNone)])) ''alice'' = None
         \<and> sessions (run example_loads ?st2
               [Resume 0 Sup (Returns VNone), Resume 0 Sup (Returns VNone)]) 1 = sessions ?st2 1"
    using shared_client_id_teardown
            [where st = ?st2 and sid = 0 and s = ?s0 and loads = example_loads and v = VNone
               and x = 1 and h = 8 and r = "Returns VNone", THEN conjunct2, THEN conjunct1]
          shared_id_state
    by simp
  have c: "connections (proc ?st3) ''alice'' = Some 0"
    using shared_client_id_teardown
            [where sid = 0 and s = t and loads = example_loads and key = "Some ''secret''"
               and sched = "earlier_session @ handshake 0 ''alice'' 7",
             THEN conjunct2, THEN conjunct2, THEN conjunct2]
          earlier_then_handshake t
    by simp
  show ?thesis using a b c two_registrations_state shared_id_state by simp
qed

end
